theory Spec2Isabelle
  imports Complex_Main "HOL-Library.Word"
begin

section \<open>Titanic notebook: the title of a passenger\<close>

text \<open>
  Exceptions of the Python run time that the notebook's cells can raise.
\<close>

datatype error = ValueError | TypeError

text \<open>
  \<^verbatim>\<open>
  def get_title(name):
      title_search = re.search(' ([A-Za-z]+)\.', name)
      # If the title exists, extract and return it.
      if title_search:
          return title_search.group(1)
      return ""
  \<close>
  Names are Python 2 byte strings. The character class \<open>[A-Za-z]\<close> is the ASCII letters.
\<close>

definition is_letter :: "char \<Rightarrow> bool" where
  "is_letter c \<longleftrightarrow>
     (let n = (of_char c :: nat) in (65 \<le> n \<and> n \<le> 90) \<or> (97 \<le> n \<and> n \<le> 122))"

text \<open>
  The pattern tried at the start of a string: a space, the group \<open>[A-Za-z]+\<close>, a period.
  The group is greedy and gives back letters only when the rest fails to match; a shorter
  run would leave a letter where the period is required, so the group can only be the whole
  run of letters after the space.
\<close>

definition match_here :: "string \<Rightarrow> string option" where
  "match_here s =
     (case s of
        [] \<Rightarrow> None
      | c # cs \<Rightarrow>
          if c \<noteq> CHR '' '' then None
          else (case dropWhile is_letter cs of
                  [] \<Rightarrow> None
                | d # _ \<Rightarrow>
                    if takeWhile is_letter cs \<noteq> [] \<and> d = CHR ''.''
                    then Some (takeWhile is_letter cs) else None))"

text \<open>\<open>re.search\<close> scans the start positions from left to right; the first match wins.\<close>

fun re_search :: "string \<Rightarrow> string option" where
  "re_search [] = None"
| "re_search (c # cs) =
     (case match_here (c # cs) of Some g \<Rightarrow> Some g | None \<Rightarrow> re_search cs)"

definition get_title :: "string \<Rightarrow> string" where
  "get_title name = (case re_search name of Some g \<Rightarrow> g | None \<Rightarrow> [])"

text \<open>
  The property in the words of the specification: the name contains a space, a non-empty
  run of letters and a period, one after the other.
\<close>

definition has_title_pattern :: "string \<Rightarrow> bool" where
  "has_title_pattern name \<longleftrightarrow>
     (\<exists>pre run post. name = pre @ CHR '' '' # run @ CHR ''.'' # post
        \<and> run \<noteq> [] \<and> list_all is_letter run)"

text \<open>
  \<^verbatim>\<open>
  dataset['Title'] = dataset['Title'].replace(['Lady', 'Countess','Capt', 'Col',
      'Don', 'Dr', 'Major', 'Rev', 'Sir', 'Jonkheer', 'Dona'], 'Rare')
  dataset['Title'] = dataset['Title'].replace('Mlle', 'Miss')
  dataset['Title'] = dataset['Title'].replace('Ms', 'Miss')
  dataset['Title'] = dataset['Title'].replace('Mme', 'Mrs')
  \<close>
  \<open>Series.replace\<close> compares whole cell values; on one cell it is the two functions below.
\<close>

definition rare_titles :: "string list" where
  "rare_titles = [''Lady'', ''Countess'', ''Capt'', ''Col'', ''Don'', ''Dr'', ''Major'',
     ''Rev'', ''Sir'', ''Jonkheer'', ''Dona'']"

definition replace_list :: "string list \<Rightarrow> string \<Rightarrow> string \<Rightarrow> string" where
  "replace_list olds new t = (if t \<in> set olds then new else t)"

definition replace_value :: "string \<Rightarrow> string \<Rightarrow> string \<Rightarrow> string" where
  "replace_value old new t = (if t = old then new else t)"

definition Title_replace :: "string \<Rightarrow> string" where
  "Title_replace t =
     replace_value ''Mme'' ''Mrs''
       (replace_value ''Ms'' ''Miss''
         (replace_value ''Mlle'' ''Miss''
           (replace_list rare_titles ''Rare'' t)))"

subsection \<open>Categorical encodings of the cleaning cell\<close>

text \<open>
  \<^verbatim>\<open>
  dataset['Sex'] = dataset['Sex'].map( {'female': 0, 'male': 1} ).astype(int)
  title_mapping = {"Mr": 1, "Miss": 2, "Mrs": 3, "Master": 4, "Rare": 5}
  dataset['Title'] = dataset['Title'].map(title_mapping)
  dataset['Title'] = dataset['Title'].fillna(0)
  dataset['Embarked'] = dataset['Embarked'].map( {'S': 0, 'C': 1, 'Q': 2} ).astype(int)
  \<close>
  A cell of an object column is a string or missing (\<open>None\<close>, pandas' NaN).
  \<open>Series.map\<close> with a dictionary looks the cell up and gives NaN for a missing cell and
  for a key that is not in the dictionary; \<open>fillna\<close> replaces NaN; \<open>astype(int)\<close>
  raises \<open>ValueError\<close> on NaN.
\<close>

definition sex_mapping :: "(string \<times> int) list" where
  "sex_mapping = [(''female'', 0), (''male'', 1)]"

definition title_mapping :: "(string \<times> int) list" where
  "title_mapping = [(''Mr'', 1), (''Miss'', 2), (''Mrs'', 3), (''Master'', 4), (''Rare'', 5)]"

definition embarked_mapping :: "(string \<times> int) list" where
  "embarked_mapping = [(''S'', 0), (''C'', 1), (''Q'', 2)]"

definition map_dict :: "(string \<times> int) list \<Rightarrow> string option \<Rightarrow> int option" where
  "map_dict d cell = (case cell of None \<Rightarrow> None | Some k \<Rightarrow> map_of d k)"

definition fillna :: "'a \<Rightarrow> 'a option \<Rightarrow> 'a option" where
  "fillna v cell = (case cell of None \<Rightarrow> Some v | Some x \<Rightarrow> Some x)"

definition astype_int :: "int option \<Rightarrow> error + int" where
  "astype_int cell = (case cell of None \<Rightarrow> Inl ValueError | Some n \<Rightarrow> Inr n)"

definition Mapping_Sex :: "string option \<Rightarrow> error + int" where
  "Mapping_Sex cell = astype_int (map_dict sex_mapping cell)"

definition Mapping_titles :: "string option \<Rightarrow> int option" where
  "Mapping_titles cell = fillna 0 (map_dict title_mapping cell)"

definition Mapping_Embarked :: "string option \<Rightarrow> error + int" where
  "Mapping_Embarked cell = astype_int (map_dict embarked_mapping cell)"

text \<open>
  The notebook has no decoder. The inverse that the round-trip property speaks of is
  the reverse lookup in the same table.
\<close>

definition decoding :: "(string \<times> int) list \<Rightarrow> int \<Rightarrow> string option" where
  "decoding d v = map_of (map prod.swap d) v"

section \<open>Titanic notebook: the data frames\<close>

text \<open>
  \<^verbatim>\<open>
  train = pd.read_csv('./input/train.csv', header = 0, dtype={'Age': np.float64})
  test  = pd.read_csv('./input/test.csv' , header = 0, dtype={'Age': np.float64})
  full_data = [train, test]
  \<close>
  A frame is the list of its rows, in index order. The columns have the dtypes that
  \<open>train.info()\<close> prints: \<open>int64\<close> columns are 64-bit words read as two's complement,
  \<open>float64\<close> columns hold a number or NaN (\<open>None\<close>; infinities do not occur in the
  files and are not modelled), \<open>object\<close> columns hold a string or NaN. A float is the
  real number it stands for; comparisons of floats and the conversion to an integer are
  exact. The test file has no \<open>Survived\<close> column: its rows carry \<open>unit\<close> there. The
  columns whose dtype the notebook changes in place are type parameters.
\<close>

type_synonym int64 = "64 word"


record ('s, 'sex, 'age, 'fare, 'emb) passenger =
  Survived :: 's
  PassengerId :: int64
  Pclass :: int64
  Name :: "string option"
  Sex :: 'sex
  Age :: 'age
  SibSp :: int64
  Parch :: int64
  Ticket :: "string option"
  Fare :: 'fare
  Cabin :: "string option"
  Embarked :: 'emb

record ('s, 'sex, 'age, 'fare, 'emb) passenger_fs =
  "('s, 'sex, 'age, 'fare, 'emb) passenger" +
  FamilySize :: int64

record ('s, 'sex, 'age, 'fare, 'emb) passenger_alone =
  "('s, 'sex, 'age, 'fare, 'emb) passenger_fs" +
  IsAlone :: int64

record ('s, 'sex, 'age, 'fare, 'emb, 'title) passenger_title =
  "('s, 'sex, 'age, 'fare, 'emb) passenger_alone" +
  Title :: 'title

text \<open>A frame as read, and the frame at the end of the exploratory cells.\<close>

type_synonym 's csv_row = "('s, string option, real option, real option, string option) passenger"

type_synonym 's eda_row =
  "('s, string option, int, real option, string option, string) passenger_title"


subsection \<open>Family size and the is-alone flag\<close>

text \<open>
  \<^verbatim>\<open>
  for dataset in full_data:
      dataset['FamilySize'] = dataset['SibSp'] + dataset['Parch'] + 1
  \<close>
  The sum of two \<open>int64\<close> columns is an \<open>int64\<close> column; numpy wraps around on overflow.
\<close>

definition add_FamilySize ::
  "('s, 'sex, 'age, 'fare, 'emb) passenger \<Rightarrow> ('s, 'sex, 'age, 'fare, 'emb) passenger_fs" where
  "add_FamilySize r = passenger.extend r (passenger_fs.fields (SibSp r + Parch r + 1))"

text \<open>
  \<^verbatim>\<open>
  for dataset in full_data:
      dataset['IsAlone'] = 0
      dataset.loc[dataset['FamilySize'] == 1, 'IsAlone'] = 1
  \<close>
  \<open>loc_assign\<close> is the assignment \<open>dataset.loc[cond, col] = v\<close> seen from one cell.
\<close>

definition loc_assign :: "bool \<Rightarrow> 'a \<Rightarrow> 'a \<Rightarrow> 'a" where
  "loc_assign cond v old = (if cond then v else old)"

definition add_IsAlone ::
  "('s, 'sex, 'age, 'fare, 'emb) passenger_fs \<Rightarrow> ('s, 'sex, 'age, 'fare, 'emb) passenger_alone" where
  "add_IsAlone r =
     (let r0 = passenger_fs.extend r (passenger_alone.fields 0)
      in r0\<lparr>IsAlone := loc_assign (FamilySize r0 = 1) 1 (IsAlone r0)\<rparr>)"

subsection \<open>Filling the port and the fare\<close>









subsection \<open>Imputing the age\<close>






text \<open>Python's \<open>int(x)\<close> of a float: the fraction is cut off, towards zero.\<close>

definition trunc :: "real \<Rightarrow> int" where
  "trunc x = (if 0 \<le> x then \<lfloor>x\<rfloor> else \<lceil>x\<rceil>)"




text \<open>
  \<open>astype(int)\<close> on a float column raises \<open>ValueError\<close> when a cell is NaN and cuts the
  fraction off otherwise (a float outside \<open>int64\<close> has no defined result; the model
  keeps the integer).
\<close>

definition float_astype_int :: "real option \<Rightarrow> error + int" where
  "float_astype_int cell = (case cell of None \<Rightarrow> Inl ValueError | Some x \<Rightarrow> Inr (trunc x))"



subsection \<open>The title column\<close>



subsection \<open>The exploratory cells, in the notebook's order\<close>


section \<open>Titanic notebook: data cleaning\<close>

text \<open>
  \<^verbatim>\<open>
  # Mapping Fare
  dataset.loc[ dataset['Fare'] <= 7.91, 'Fare']                               = 0
  dataset.loc[(dataset['Fare'] > 7.91) & (dataset['Fare'] <= 14.454), 'Fare'] = 1
  dataset.loc[(dataset['Fare'] > 14.454) & (dataset['Fare'] <= 31), 'Fare']   = 2
  dataset.loc[ dataset['Fare'] > 31, 'Fare']                                  = 3
  dataset['Fare'] = dataset['Fare'].astype(int)
  \<close>
  The four assignments run one after the other on the same column, so a later one sees
  the codes that an earlier one wrote. A comparison with NaN is false. The literals
  \<open>7.91\<close> and \<open>14.454\<close> of the Python source are \<open>float64\<close> numbers, the ones
  nearest to these decimals; both lie a little above the decimal. The cells are compared
  with these numbers.
\<close>

definition float64_7_91 :: real where
  "float64_7_91 = 2226467065781289 / 2 ^ 48"

definition float64_14_454 :: real where
  "float64_14_454 = 2034219656687911 / 2 ^ 47"

definition cell_le :: "real option \<Rightarrow> real \<Rightarrow> bool" where
  "cell_le c x = (case c of None \<Rightarrow> False | Some y \<Rightarrow> y \<le> x)"

definition cell_gt :: "real option \<Rightarrow> real \<Rightarrow> bool" where
  "cell_gt c x = (case c of None \<Rightarrow> False | Some y \<Rightarrow> y > x)"

definition Mapping_Fare :: "real option \<Rightarrow> error + int" where
  "Mapping_Fare fare =
     (let f1 = loc_assign (cell_le fare float64_7_91) (Some 0) fare;
          f2 = loc_assign (cell_gt f1 float64_7_91 \<and> cell_le f1 float64_14_454) (Some 1) f1;
          f3 = loc_assign (cell_gt f2 float64_14_454 \<and> cell_le f2 31) (Some 2) f2;
          f4 = loc_assign (cell_gt f3 31) (Some 3) f3
      in float_astype_int f4)"

text \<open>
  \<^verbatim>\<open>
  # Mapping Age
  dataset.loc[ dataset['Age'] <= 16, 'Age']                          = 0
  dataset.loc[(dataset['Age'] > 16) & (dataset['Age'] <= 32), 'Age'] = 1
  dataset.loc[(dataset['Age'] > 32) & (dataset['Age'] <= 48), 'Age'] = 2
  dataset.loc[(dataset['Age'] > 48) & (dataset['Age'] <= 64), 'Age'] = 3
  dataset.loc[ dataset['Age'] > 64, 'Age']                           = 4
  \<close>
  The age column is an integer column since the imputation cell.
\<close>

definition Mapping_Age :: "int \<Rightarrow> int" where
  "Mapping_Age age =
     (let a1 = loc_assign (age \<le> 16) 0 age;
          a2 = loc_assign (a1 > 16 \<and> a1 \<le> 32) 1 a1;
          a3 = loc_assign (a2 > 32 \<and> a2 \<le> 48) 2 a2;
          a4 = loc_assign (a3 > 48 \<and> a3 \<le> 64) 3 a3
      in loc_assign (a4 > 64) 4 a4)"

text \<open>
  The cleaning cell of the first feature selection, seen from one row. The sex, port and
  fare columns become integer columns, the title column a float column.
\<close>

type_synonym 's clean_row = "('s, int, int, int, int, int option) passenger_title"

definition clean1 :: "'s eda_row \<Rightarrow> error + 's clean_row" where
  "clean1 r =
     (case Mapping_Sex (Sex r) of
        Inl e \<Rightarrow> Inl e
      | Inr sex \<Rightarrow>
     (case Mapping_Embarked (Embarked r) of
        Inl e \<Rightarrow> Inl e
      | Inr embarked \<Rightarrow>
     (case Mapping_Fare (Fare r) of
        Inl e \<Rightarrow> Inl e
      | Inr fare \<Rightarrow>
          Inr \<lparr>Survived = Survived r, PassengerId = PassengerId r, Pclass = Pclass r,
               Name = Name r, Sex = sex, Age = Mapping_Age (Age r), SibSp = SibSp r,
               Parch = Parch r, Ticket = Ticket r, Fare = fare, Cabin = Cabin r,
               Embarked = embarked, FamilySize = FamilySize r, IsAlone = IsAlone r,
               Title = Mapping_titles (Some (Title r))\<rparr>)))"

text \<open>
  \<^verbatim>\<open>
  drop_elements = ['PassengerId', 'Name', 'Ticket', 'Cabin', 'SibSp',
                   'Parch', 'FamilySize']
  train_copy = train_copy.drop(drop_elements, axis = 1)
  train_copy = train_copy.drop(['CategoricalAge', 'CategoricalFare'], axis = 1)
  test_copy  = test_copy.drop(drop_elements, axis = 1)
  train_copy = train_copy.values
  test_copy  = test_copy.values
  \<close>
  \<open>.values\<close> of the remaining integer and float columns is a \<open>float64\<close> matrix, one
  row for each row of the frame, the columns in the frame's order: \<open>Survived\<close> (in
  \<open>train\<close> only), \<open>Pclass\<close>, \<open>Sex\<close>, \<open>Age\<close>, \<open>Fare\<close>, \<open>Embarked\<close>, \<open>IsAlone\<close>,
  \<open>Title\<close>.
\<close>

datatype float64 = Num real | PosInf | NegInf | NaN







subsection \<open>The second feature selection\<close>

text \<open>
  \<^verbatim>\<open>
  # Mapping Fare
  dataset['FarePerPerson']=dataset['Fare']/(dataset['FamilySize']+1)
  \<close>
  The divisor is an \<open>int64\<close> column, the quotient a float column. pandas divides by zero
  without raising: the quotient is an infinity, or NaN for \<open>0/0\<close>. The rounding of
  a finite quotient is not modelled: the cell is written as the real quotient.
\<close>

definition FarePerPerson_divisor :: "int64 \<Rightarrow> int64" where
  "FarePerPerson_divisor family_size = family_size + 1"

definition float_div :: "real option \<Rightarrow> int64 \<Rightarrow> float64" where
  "float_div x d =
     (case x of
        None \<Rightarrow> NaN
      | Some f \<Rightarrow>
          if d = 0 then (if f > 0 then PosInf else if f < 0 then NegInf else NaN)
          else Num (f / real_of_int (sint d)))"

record ('s, 'sex, 'age, 'fare, 'emb, 'title) passenger_fpp =
  "('s, 'sex, 'age, 'fare, 'emb, 'title) passenger_title" +
  FarePerPerson :: float64

type_synonym 's clean_row2 = "('s, int, int, real option, int, int option) passenger_fpp"

definition clean2 :: "'s eda_row \<Rightarrow> error + 's clean_row2" where
  "clean2 r =
     (case Mapping_Sex (Sex r) of
        Inl e \<Rightarrow> Inl e
      | Inr sex \<Rightarrow>
     (case Mapping_Embarked (Embarked r) of
        Inl e \<Rightarrow> Inl e
      | Inr embarked \<Rightarrow>
          Inr \<lparr>Survived = Survived r, PassengerId = PassengerId r, Pclass = Pclass r,
               Name = Name r, Sex = sex, Age = Mapping_Age (Age r), SibSp = SibSp r,
               Parch = Parch r, Ticket = Ticket r, Fare = Fare r, Cabin = Cabin r,
               Embarked = embarked, FamilySize = FamilySize r, IsAlone = IsAlone r,
               Title = Mapping_titles (Some (Title r)),
               FarePerPerson = float_div (Fare r) (FarePerPerson_divisor (FamilySize r))\<rparr>))"



subsection \<open>Rows that are carried along\<close>





section \<open>Otto notebook: class labels\<close>

text \<open>
  \<^verbatim>\<open>
  # Convert from classes to numbers
  y <- train[, nameLastCol, with = F][[1]] %>% gsub('Class_','',.) %>% {as.integer(.) -1}
  \<close>
  The elements of the column are strings or the missing value \<open>NA\<close> (\<open>None\<close>).
  \<open>gsub\<close> with a pattern of plain characters and the empty replacement deletes every
  occurrence of the pattern, scanning from the left and going on after each deleted
  occurrence; with the empty pattern the string stays as it is.
\<close>

function gsub_delete :: "string \<Rightarrow> string \<Rightarrow> string" where
  "gsub_delete pat s =
     (if pat = [] \<or> s = [] then s
      else if take (length pat) s = pat then gsub_delete pat (drop (length pat) s)
      else hd s # gsub_delete pat (tl s))"
  by pat_completeness auto
termination
  by (relation "measure (\<lambda>(pat, s). length s)") auto

text \<open>
  \<open>gsub\<close> leaves \<open>NA\<close> as it is, and it stops with an error (input string is invalid
  in this locale) on a string that is not valid in the multibyte encoding of the session.
  Which byte strings are valid depends on the locale and is the parameter \<open>valid\<close>: in
  a single-byte locale every string is, in every locale the strings of ASCII characters
  are.
\<close>

datatype r_error = Invalid_in_locale

definition gsub :: "(string \<Rightarrow> bool) \<Rightarrow> string \<Rightarrow> string option \<Rightarrow> r_error + string option" where
  "gsub valid pat x =
     (case x of
        None \<Rightarrow> Inr None
      | Some s \<Rightarrow> if valid s then Inr (Some (gsub_delete pat s)) else Inl Invalid_in_locale)"

definition ascii :: "string \<Rightarrow> bool" where
  "ascii s \<longleftrightarrow> list_all (\<lambda>c. (of_char c :: nat) < 128) s"

definition single_byte_locale :: "string \<Rightarrow> bool" where
  "single_byte_locale s \<longleftrightarrow> True"

text \<open>
  \<open>as.integer\<close> of \<open>NA\<close> is \<open>NA\<close>. On a string it skips blanks on both sides, reads an
  optional sign and a number, and gives the missing value \<open>NA\<close> (\<open>None\<close>), with a
  warning, when the text is not a number or the number is outside the 32-bit range of R's
  integers. A blank string is \<open>NA\<close>. The model reads decimal digits; what R makes of any
  other text (it also reads fractions, exponents and hexadecimal numbers, cutting the
  fraction off) is the parameter \<open>other\<close>.
\<close>

definition is_space :: "char \<Rightarrow> bool" where
  "is_space c \<longleftrightarrow> (of_char c :: nat) \<in> {9, 10, 11, 12, 13, 32}"

definition is_digit :: "char \<Rightarrow> bool" where
  "is_digit c \<longleftrightarrow> 48 \<le> (of_char c :: nat) \<and> (of_char c :: nat) \<le> 57"

definition decimal :: "string \<Rightarrow> nat" where
  "decimal ds = foldl (\<lambda>acc c. 10 * acc + (of_char c - 48)) 0 ds"

definition strip_blank :: "string \<Rightarrow> string" where
  "strip_blank s = rev (dropWhile is_space (rev (dropWhile is_space s)))"

definition read_sign :: "string \<Rightarrow> int \<times> string" where
  "read_sign t =
     (case t of
        [] \<Rightarrow> (1, [])
      | c # cs \<Rightarrow> if c = CHR ''-'' then (- 1, cs) else if c = CHR ''+'' then (1, cs) else (1, t))"

definition as_integer :: "(string \<Rightarrow> int option) \<Rightarrow> string \<Rightarrow> int option" where
  "as_integer other s =
     (let t = strip_blank s; (sign, ds) = read_sign t
      in if t = [] then None
         else if ds \<noteq> [] \<and> list_all is_digit ds then
           (let v = sign * int (decimal ds)
            in if v \<ge> 2 ^ 31 \<or> v \<le> - (2 ^ 31) then None else Some v)
         else other s)"

text \<open>\<open>NA - 1\<close> is \<open>NA\<close>.\<close>

definition classToIntegers ::
  "(string \<Rightarrow> bool) \<Rightarrow> (string \<Rightarrow> int option) \<Rightarrow> string option \<Rightarrow> r_error + int option" where
  "classToIntegers valid other y =
     (case gsub valid ''Class_'' y of
        Inl e \<Rightarrow> Inl e
      | Inr None \<Rightarrow> Inr None
      | Inr (Some t) \<Rightarrow> Inr (map_option (\<lambda>n. n - 1) (as_integer other t)))"

text \<open>
  The format in the words of the specification: the prefix, then an integer in decimal
  digits. \<open>digits_of\<close> writes a number in decimal digits.
\<close>

definition class_format :: "string \<Rightarrow> bool" where
  "class_format y \<longleftrightarrow> (\<exists>ds. y = ''Class_'' @ ds \<and> ds \<noteq> [] \<and> list_all is_digit ds)"

fun digits_of :: "nat \<Rightarrow> string" where
  "digits_of n =
     (if n < 10 then [char_of (48 + n)]
      else digits_of (n div 10) @ [char_of (48 + n mod 10)])"

section \<open>Example rows\<close>

text \<open>
  The first row of \<open>train.csv\<close>; the notebook prints its cleaned form as row 0 of both
  feature selections.
\<close>

definition braund :: "int64 csv_row" where
  "braund =
     \<lparr>Survived = 0, PassengerId = 1, Pclass = 3, Name = Some ''Braund, Mr. Owen Harris'',
      Sex = Some ''male'', Age = Some 22, SibSp = 1, Parch = 0, Ticket = Some ''A/5 21171'',
      Fare = Some 7.25, Cabin = None, Embarked = Some ''S''\<rparr>"

text \<open>The same row at the end of the exploratory cells and after the cleaning cell.\<close>

definition braund_eda :: "int64 eda_row" where
  "braund_eda =
     \<lparr>Survived = 0, PassengerId = 1, Pclass = 3, Name = Some ''Braund, Mr. Owen Harris'',
      Sex = Some ''male'', Age = 22, SibSp = 1, Parch = 0, Ticket = Some ''A/5 21171'',
      Fare = Some 7.25, Cabin = None, Embarked = Some ''S'', FamilySize = 2, IsAlone = 0,
      Title = ''Mr''\<rparr>"

definition braund_clean :: "int64 clean_row" where
  "braund_clean =
     \<lparr>Survived = 0, PassengerId = 1, Pclass = 3, Name = Some ''Braund, Mr. Owen Harris'',
      Sex = 1, Age = 1, SibSp = 1, Parch = 0, Ticket = Some ''A/5 21171'',
      Fare = 0, Cabin = None, Embarked = 0, FamilySize = 2, IsAlone = 0,
      Title = Some 1\<rparr>"

definition braund_clean2 :: "int64 clean_row2" where
  "braund_clean2 =
     \<lparr>Survived = 0, PassengerId = 1, Pclass = 3, Name = Some ''Braund, Mr. Owen Harris'',
      Sex = 1, Age = 1, SibSp = 1, Parch = 0, Ticket = Some ''A/5 21171'',
      Fare = Some 7.25, Cabin = None, Embarked = 0, FamilySize = 2, IsAlone = 0,
      Title = Some 1, FarePerPerson = Num (7.25 / 3)\<rparr>"














section \<open>Properties of the title functions\<close>

lemma match_here_pattern:
  assumes "run \<noteq> []" "list_all is_letter run"
  shows "match_here (CHR '' '' # run @ CHR ''.'' # post) = Some run"
proof -
  have nl: "\<not> is_letter CHR ''.''" by (simp add: is_letter_def)
  have tw: "takeWhile is_letter (run @ CHR ''.'' # post) = run"
    using assms(2) nl by (simp add: takeWhile_append2 list_all_iff)
  have dw: "dropWhile is_letter (run @ CHR ''.'' # post) = CHR ''.'' # post"
    using assms(2) nl by (simp add: dropWhile_append2 list_all_iff)
  show ?thesis using assms(1) by (simp add: match_here_def tw dw)
qed

lemma match_here_Some:
  assumes "match_here s = Some g"
  shows "\<exists>post. s = CHR '' '' # g @ CHR ''.'' # post \<and> g \<noteq> [] \<and> list_all is_letter g"
proof (cases s)
  case Nil
  with assms show ?thesis by (simp add: match_here_def)
next
  case (Cons c cs)
  with assms have c: "c = CHR '' ''"
    by (simp add: match_here_def split: if_splits)
  from assms Cons c obtain d ds where dw: "dropWhile is_letter cs = d # ds"
    by (auto simp: match_here_def split: list.splits)
  from assms Cons c dw have g: "g = takeWhile is_letter cs" "g \<noteq> []" "d = CHR ''.''"
    by (auto simp: match_here_def split: if_splits)
  have "cs = takeWhile is_letter cs @ dropWhile is_letter cs" by simp
  then have "cs = g @ CHR ''.'' # ds" using g dw by simp
  moreover have "list_all is_letter g"
    unfolding g(1) list_all_iff by (auto dest: set_takeWhileD)
  ultimately show ?thesis using Cons c g(2) by blast
qed

lemma re_search_pattern:
  assumes "run \<noteq> []" "list_all is_letter run"
  shows "re_search (pre @ CHR '' '' # run @ CHR ''.'' # post) \<noteq> None"
proof (induction pre)
  case Nil
  show ?case using match_here_pattern [OF assms, of post] by simp
next
  case (Cons p pre)
  then show ?case by (simp split: option.splits)
qed

lemma re_search_Some:
  "re_search s = Some g \<Longrightarrow>
     \<exists>pre post. s = pre @ CHR '' '' # g @ CHR ''.'' # post \<and> g \<noteq> [] \<and> list_all is_letter g"
proof (induction s)
  case Nil
  then show ?case by simp
next
  case (Cons c cs)
  show ?case
  proof (cases "match_here (c # cs)")
    case (Some h)
    with Cons.prems have "h = g" by simp
    with Some obtain post where
      "c # cs = [] @ CHR '' '' # g @ CHR ''.'' # post \<and> g \<noteq> [] \<and> list_all is_letter g"
      using match_here_Some by fastforce
    then show ?thesis by blast
  next
    case None
    with Cons.prems have "re_search cs = Some g" by simp
    from Cons.IH [OF this] obtain pre post where
      "cs = pre @ CHR '' '' # g @ CHR ''.'' # post" "g \<noteq> []" "list_all is_letter g"
      by blast
    then have "c # cs = (c # pre) @ CHR '' '' # g @ CHR ''.'' # post" by simp
    then show ?thesis using \<open>g \<noteq> []\<close> \<open>list_all is_letter g\<close> by blast
  qed
qed

lemma re_search_None_iff: "re_search s = None \<longleftrightarrow> \<not> has_title_pattern s"
proof
  assume "re_search s = None"
  then show "\<not> has_title_pattern s"
    unfolding has_title_pattern_def using re_search_pattern by blast
next
  assume n: "\<not> has_title_pattern s"
  show "re_search s = None"
  proof (rule ccontr)
    assume "re_search s \<noteq> None"
    then obtain g where "re_search s = Some g" by blast
    from re_search_Some [OF this] have "has_title_pattern s"
      unfolding has_title_pattern_def by blast
    with n show False by simp
  qed
qed

lemma no_space_no_pattern: "CHR '' '' \<notin> set s \<Longrightarrow> \<not> has_title_pattern s"
  unfolding has_title_pattern_def by auto

text \<open>
  C7. Title extraction returns the run of letters between a space and a period of the
  name: on "Braund, Mr. Owen Harris" it is "Mr"; a name that has the pattern gives a
  non-empty run of letters standing in the name between a space and a period; a name
  without the pattern gives the empty string. The function is total on strings.
\<close>

theorem get_title_extracts:
  "get_title ''Braund, Mr. Owen Harris'' = ''Mr''
   \<and> (\<not> has_title_pattern name \<longrightarrow> get_title name = [])
   \<and> (has_title_pattern name \<longrightarrow>
        (\<exists>pre post. name = pre @ CHR '' '' # get_title name @ CHR ''.'' # post
           \<and> get_title name \<noteq> [] \<and> list_all is_letter (get_title name)))"
proof (intro conjI impI)
  show "get_title ''Braund, Mr. Owen Harris'' = ''Mr''"
    by (simp add: get_title_def match_here_def is_letter_def)
  show "get_title name = []" if "\<not> has_title_pattern name"
    using that re_search_None_iff [of name] by (simp add: get_title_def)
  show "\<exists>pre post. name = pre @ CHR '' '' # get_title name @ CHR ''.'' # post
       \<and> get_title name \<noteq> [] \<and> list_all is_letter (get_title name)"
    if "has_title_pattern name"
  proof -
    from that obtain g where g: "re_search name = Some g"
      using re_search_None_iff [of name] by auto
    then have "get_title name = g" by (simp add: get_title_def)
    with re_search_Some [OF g] show ?thesis by simp
  qed
qed

theorem get_title_extracts_witness:
  "\<not> has_title_pattern ''Cher'' \<and> get_title ''Cher'' = []
   \<and> has_title_pattern ''Heikkinen, Miss. Laina''
   \<and> (\<exists>pre post. ''Heikkinen, Miss. Laina''
          = pre @ CHR '' '' # get_title ''Heikkinen, Miss. Laina'' @ CHR ''.'' # post)
   \<and> get_title ''Heikkinen, Miss. Laina'' = ''Miss''"
proof -
  have a: "\<not> has_title_pattern ''Cher''"
    by (rule no_space_no_pattern) simp
  have "''Heikkinen, Miss. Laina'' = ''Heikkinen,'' @ CHR '' '' # ''Miss'' @ CHR ''.'' # '' Laina''"
    by simp
  moreover have "list_all is_letter ''Miss''" by (simp add: is_letter_def)
  ultimately have b: "has_title_pattern ''Heikkinen, Miss. Laina''"
    unfolding has_title_pattern_def by blast
  have c: "get_title ''Heikkinen, Miss. Laina'' = ''Miss''"
    by (simp add: get_title_def match_here_def is_letter_def)
  from a b c get_title_extracts [of "''Cher''"] get_title_extracts [of "''Heikkinen, Miss. Laina''"]
  show ?thesis by blast
qed

text \<open>
  C6. Rare-title grouping sends each of Lady, Countess, Capt, Col, Don, Dr, Major, Rev,
  Sir, Jonkheer and Dona to "Rare", sends Mlle and Ms to "Miss" and Mme to "Mrs", and
  leaves every other title as it is.
\<close>

theorem Title_replace_groups:
  "(\<forall>t \<in> set [''Lady'', ''Countess'', ''Capt'', ''Col'', ''Don'', ''Dr'', ''Major'',
        ''Rev'', ''Sir'', ''Jonkheer'', ''Dona'']. Title_replace t = ''Rare'')
   \<and> Title_replace ''Mlle'' = ''Miss''
   \<and> Title_replace ''Ms'' = ''Miss''
   \<and> Title_replace ''Mme'' = ''Mrs''
   \<and> (t \<notin> set [''Lady'', ''Countess'', ''Capt'', ''Col'', ''Don'', ''Dr'', ''Major'',
        ''Rev'', ''Sir'', ''Jonkheer'', ''Dona'', ''Mlle'', ''Ms'', ''Mme'']
        \<longrightarrow> Title_replace t = t)"
  by (simp add: Title_replace_def replace_value_def replace_list_def rare_titles_def)

theorem Title_replace_groups_witness:
  "''Dr'' \<in> set [''Lady'', ''Countess'', ''Capt'', ''Col'', ''Don'', ''Dr'', ''Major'',
        ''Rev'', ''Sir'', ''Jonkheer'', ''Dona'']
   \<and> Title_replace ''Dr'' = ''Rare''
   \<and> Title_replace ''Major'' = ''Rare''
   \<and> ''Master'' \<notin> set [''Lady'', ''Countess'', ''Capt'', ''Col'', ''Don'', ''Dr'', ''Major'',
        ''Rev'', ''Sir'', ''Jonkheer'', ''Dona'', ''Mlle'', ''Ms'', ''Mme'']
   \<and> Title_replace ''Master'' = ''Master''"
  using Title_replace_groups [of "''Master''"] by simp

text \<open>
  C3. The title encoding sends Mr, Miss, Mrs, Master and Rare to 1, 2, 3, 4 and 5; every
  other title, the empty string of a name without a title and a missing title among
  them, gets the code 0, and no error is raised.
\<close>

theorem Mapping_titles_codes:
  "Mapping_titles (Some ''Mr'') = Some 1
   \<and> Mapping_titles (Some ''Miss'') = Some 2
   \<and> Mapping_titles (Some ''Mrs'') = Some 3
   \<and> Mapping_titles (Some ''Master'') = Some 4
   \<and> Mapping_titles (Some ''Rare'') = Some 5
   \<and> Mapping_titles (Some []) = Some 0
   \<and> Mapping_titles None = Some 0
   \<and> (t \<notin> set [''Mr'', ''Miss'', ''Mrs'', ''Master'', ''Rare'']
        \<longrightarrow> Mapping_titles (Some t) = Some 0)"
  by (simp add: Mapping_titles_def fillna_def map_dict_def title_mapping_def)

theorem Mapping_titles_codes_witness:
  "''Dr'' \<notin> set [''Mr'', ''Miss'', ''Mrs'', ''Master'', ''Rare'']
   \<and> Mapping_titles (Some ''Dr'') = Some 0"
  using Mapping_titles_codes [of "''Dr''"] by simp

text \<open>
  C8. The encodings of sex (female 0, male 1), port (S 0, C 1, Q 2) and title (Mr 1,
  Miss 2, Mrs 3, Master 4, Rare 5) are injective on these categories, and looking the
  code up in the reversed table gives the category back.
\<close>

theorem encodings_round_trip:
  "inj_on (\<lambda>c. Mapping_Sex (Some c)) (set [''female'', ''male''])
   \<and> inj_on (\<lambda>c. Mapping_Embarked (Some c)) (set [''S'', ''C'', ''Q''])
   \<and> inj_on (\<lambda>c. Mapping_titles (Some c)) (set [''Mr'', ''Miss'', ''Mrs'', ''Master'', ''Rare''])
   \<and> map (\<lambda>c. Mapping_Sex (Some c)) [''female'', ''male''] = [Inr 0, Inr 1]
   \<and> map (\<lambda>c. Mapping_Embarked (Some c)) [''S'', ''C'', ''Q''] = [Inr 0, Inr 1, Inr 2]
   \<and> map (\<lambda>c. Mapping_titles (Some c)) [''Mr'', ''Miss'', ''Mrs'', ''Master'', ''Rare'']
        = [Some 1, Some 2, Some 3, Some 4, Some 5]
   \<and> (\<forall>c \<in> set [''female'', ''male''].
        \<exists>v. Mapping_Sex (Some c) = Inr v \<and> decoding sex_mapping v = Some c)
   \<and> (\<forall>c \<in> set [''S'', ''C'', ''Q''].
        \<exists>v. Mapping_Embarked (Some c) = Inr v \<and> decoding embarked_mapping v = Some c)
   \<and> (\<forall>c \<in> set [''Mr'', ''Miss'', ''Mrs'', ''Master'', ''Rare''].
        \<exists>v. Mapping_titles (Some c) = Some v \<and> decoding title_mapping v = Some c)"
  by (simp add: Mapping_Sex_def Mapping_Embarked_def Mapping_titles_def astype_int_def
      fillna_def map_dict_def decoding_def sex_mapping_def embarked_mapping_def
      title_mapping_def)

theorem encodings_round_trip_witness:
  "''male'' \<in> set [''female'', ''male'']
   \<and> Mapping_Sex (Some ''male'') = Inr 1 \<and> decoding sex_mapping 1 = Some ''male''
   \<and> ''Q'' \<in> set [''S'', ''C'', ''Q'']
   \<and> Mapping_Embarked (Some ''Q'') = Inr 2 \<and> decoding embarked_mapping 2 = Some ''Q''
   \<and> ''Rare'' \<in> set [''Mr'', ''Miss'', ''Mrs'', ''Master'', ''Rare'']
   \<and> Mapping_titles (Some ''Rare'') = Some 5 \<and> decoding title_mapping 5 = Some ''Rare''"
proof -
  have d: "decoding sex_mapping 1 = Some ''male''"
    "decoding embarked_mapping 2 = Some ''Q''"
    "decoding title_mapping 5 = Some ''Rare''"
    by (simp_all add: decoding_def sex_mapping_def embarked_mapping_def title_mapping_def)
  from encodings_round_trip d show ?thesis by simp
qed

section \<open>Properties of the numeric columns\<close>

lemma trunc_numeral: "trunc 0 = 0" "trunc 1 = 1" "trunc (numeral k) = numeral k"
  by (simp_all add: trunc_def)

lemma fare_edges:
  "2 < float64_7_91" "float64_7_91 < float64_14_454" "float64_14_454 < 31"
  "7.91 < float64_7_91" "14.454 < float64_14_454" "float64_7_91 < 7.92"
  by (simp_all add: float64_7_91_def float64_14_454_def)

lemma Mapping_Fare_bucket:
  "Mapping_Fare (Some f) =
     Inr (if f \<le> float64_7_91 then 0 else if f \<le> float64_14_454 then 1
          else if f \<le> 31 then 2 else 3)"
  using fare_edges(1-3)
  by (simp add: Mapping_Fare_def loc_assign_def cell_le_def cell_gt_def float_astype_int_def
      Let_def trunc_numeral)

lemma Mapping_Age_bucket:
  "Mapping_Age a =
     (if a \<le> 16 then 0 else if a \<le> 32 then 1 else if a \<le> 48 then 2
      else if a \<le> 64 then 3 else 4)"
  by (simp add: Mapping_Age_def loc_assign_def Let_def)

lemma clean1_Inr:
  assumes "clean1 r = Inr r'"
  shows "Mapping_Fare (Fare r) = Inr (Fare r')" "Age r' = Mapping_Age (Age r)"
    "Mapping_Sex (Sex r) = Inr (Sex r')" "Mapping_Embarked (Embarked r) = Inr (Embarked r')"
    "Title r' = Mapping_titles (Some (Title r))" "Pclass r' = Pclass r"
    "IsAlone r' = IsAlone r" "Survived r' = Survived r"
  using assms by (auto simp: clean1_def split: sum.splits)

lemma Mapping_Fare_Inr: "Mapping_Fare c = Inr k \<Longrightarrow> \<exists>f. c = Some f"
  by (cases c)
    (simp_all add: Mapping_Fare_def loc_assign_def cell_le_def cell_gt_def
      float_astype_int_def)

text \<open>
  C2. Fare and age buckets are closed on the upper edge, 7.91 and 14.454 being the
  \<open>float64\<close> numbers that the source writes so: a fare up to 7.91 (7.91 itself included)
  gets bucket 0, a fare in (7.91, 14.454] bucket 1, in (14.454, 31] bucket 2, above 31
  bucket 3; an age up to 16 gets code 0, in (16, 32] code 1, in (32, 48] code 2, in
  (48, 64] code 3, above 64 code 4. The cleaning cell writes these codes into every row it
  returns.
\<close>

theorem bucket_boundaries:
  "(f \<le> float64_7_91 \<longrightarrow> Mapping_Fare (Some f) = Inr 0)
   \<and> (float64_7_91 < f \<and> f \<le> float64_14_454 \<longrightarrow> Mapping_Fare (Some f) = Inr 1)
   \<and> (float64_14_454 < f \<and> f \<le> 31 \<longrightarrow> Mapping_Fare (Some f) = Inr 2)
   \<and> (31 < f \<longrightarrow> Mapping_Fare (Some f) = Inr 3)
   \<and> Mapping_Fare (Some float64_7_91) = Inr 0
   \<and> Mapping_Fare (Some float64_14_454) = Inr 1
   \<and> Mapping_Fare (Some 31) = Inr 2
   \<and> (a \<le> 16 \<longrightarrow> Mapping_Age a = 0)
   \<and> (16 < a \<and> a \<le> 32 \<longrightarrow> Mapping_Age a = 1)
   \<and> (32 < a \<and> a \<le> 48 \<longrightarrow> Mapping_Age a = 2)
   \<and> (48 < a \<and> a \<le> 64 \<longrightarrow> Mapping_Age a = 3)
   \<and> (64 < a \<longrightarrow> Mapping_Age a = 4)
   \<and> (clean1 r = Inr r' \<longrightarrow>
        (\<exists>x. Fare r = Some x \<and> Mapping_Fare (Some x) = Inr (Fare r'))
        \<and> Age r' = Mapping_Age (Age r))"
proof -
  have "clean1 r = Inr r' \<longrightarrow>
        (\<exists>x. Fare r = Some x \<and> Mapping_Fare (Some x) = Inr (Fare r'))
        \<and> Age r' = Mapping_Age (Age r)"
    using clean1_Inr(1,2) [of r r'] Mapping_Fare_Inr [of "Fare r" "Fare r'"] by auto
  then show ?thesis
    using fare_edges(1-3) by (simp add: Mapping_Fare_bucket Mapping_Age_bucket)
qed

theorem bucket_boundaries_witness:
  "Mapping_Fare (Some 7.25) = Inr 0
   \<and> Mapping_Fare (Some float64_7_91) = Inr 0
   \<and> float64_7_91 < 8.5 \<and> 8.5 \<le> float64_14_454
   \<and> Mapping_Fare (Some 8.5) = Inr 1
   \<and> Mapping_Fare (Some float64_14_454) = Inr 1
   \<and> Mapping_Fare (Some 31) = Inr 2
   \<and> Mapping_Fare (Some 31.25) = Inr 3
   \<and> Mapping_Age 16 = 0 \<and> Mapping_Age 32 = 1 \<and> Mapping_Age 48 = 2
   \<and> Mapping_Age 64 = 3 \<and> Mapping_Age 65 = 4
   \<and> clean1 braund_eda = Inr braund_clean
   \<and> Fare braund_eda = Some 7.25 \<and> Fare braund_clean = 0
   \<and> Age braund_eda = 22 \<and> Age braund_clean = 1"
proof -
  have c: "clean1 braund_eda = Inr braund_clean"
    using fare_edges(1-3)
    by (simp add: clean1_def braund_eda_def braund_clean_def Mapping_Sex_def
        Mapping_Embarked_def Mapping_titles_def Mapping_Fare_bucket Mapping_Age_bucket
        astype_int_def fillna_def map_dict_def sex_mapping_def embarked_mapping_def
        title_mapping_def float64_7_91_def)
  have v: "Fare braund_eda = Some 7.25" "Fare braund_clean = 0"
    "Age braund_eda = 22" "Age braund_clean = 1"
    by (simp_all add: braund_eda_def braund_clean_def)
  have e: "7.25 \<le> float64_7_91" "float64_7_91 < 8.5" "8.5 \<le> float64_14_454"
    "float64_14_454 < 31" "(31::real) < 31.25"
    by (simp_all add: float64_7_91_def float64_14_454_def)
  from c v e
    bucket_boundaries [of "7.25" 16 braund_eda braund_clean]
    bucket_boundaries [of "8.5" 32 braund_eda braund_clean]
    bucket_boundaries [of "31" 48 braund_eda braund_clean]
    bucket_boundaries [of "31.25" 64 braund_eda braund_clean]
    bucket_boundaries [of "31.25" 65 braund_eda braund_clean]
  show ?thesis by simp
qed

lemma sint_add3:
  fixes a b :: int64
  assumes "- (2 ^ 63) \<le> sint a + sint b + 1" "sint a + sint b + 1 < 2 ^ 63"
  shows "sint (a + b + 1) = sint a + sint b + 1"
proof -
  have one: "signed_take_bit 63 (1::int) = 1" by simp
  have "sint (a + b + 1) = signed_take_bit 63 (signed_take_bit 63 (sint a + sint b) + 1)"
    by (simp add: sint_word_ariths)
  also have "\<dots> = signed_take_bit 63 (sint a + sint b + 1)"
    using signed_take_bit_add [of 63 "sint a + sint b" 1] by (simp only: one)
  also have "\<dots> = sint a + sint b + 1"
    using assms by (intro signed_take_bit_int_eq_self) simp_all
  finally show ?thesis .
qed

lemma sint_add1:
  fixes a :: int64
  assumes "- (2 ^ 63) \<le> sint a + 1" "sint a + 1 < 2 ^ 63"
  shows "sint (a + 1) = sint a + 1"
  using sint_add3 [of a 0] assms by simp

lemma FamilySize_add:
  "FamilySize (add_IsAlone (add_FamilySize r)) = SibSp r + Parch r + 1"
  "FamilySize (add_FamilySize r) = SibSp r + Parch r + 1"
  by (simp_all add: add_IsAlone_def add_FamilySize_def passenger.defs passenger_fs.defs
      passenger_alone.defs Let_def)

lemma IsAlone_add:
  "IsAlone (add_IsAlone (add_FamilySize r)) = (if SibSp r + Parch r + 1 = 1 then 1 else 0)"
  by (simp add: add_IsAlone_def add_FamilySize_def loc_assign_def passenger.defs
      passenger_fs.defs passenger_alone.defs Let_def)

text \<open>
  C4. After the two cells, in every row of a frame (the training and the test frame
  alike) the family size is the sibling/spouse count plus the parent/child count plus 1,
  in the \<open>int64\<close> arithmetic of the columns and, when that sum fits \<open>int64\<close>, as
  integers; the is-alone flag is 1 if the family size is 1 and 0 otherwise. No row is
  added or lost.
\<close>

theorem FamilySize_IsAlone:
  "length (map (add_IsAlone \<circ> add_FamilySize) dataset) = length dataset
   \<and> (\<forall>i < length dataset.
        FamilySize (map (add_IsAlone \<circ> add_FamilySize) dataset ! i)
          = SibSp (dataset ! i) + Parch (dataset ! i) + 1
        \<and> (sint (SibSp (dataset ! i)) + sint (Parch (dataset ! i)) + 1 \<in> {- (2 ^ 63) ..< 2 ^ 63}
             \<longrightarrow> sint (FamilySize (map (add_IsAlone \<circ> add_FamilySize) dataset ! i))
                   = sint (SibSp (dataset ! i)) + sint (Parch (dataset ! i)) + 1)
        \<and> (IsAlone (map (add_IsAlone \<circ> add_FamilySize) dataset ! i) = 1
             \<longleftrightarrow> FamilySize (map (add_IsAlone \<circ> add_FamilySize) dataset ! i) = 1)
        \<and> (IsAlone (map (add_IsAlone \<circ> add_FamilySize) dataset ! i) = 0
             \<longleftrightarrow> FamilySize (map (add_IsAlone \<circ> add_FamilySize) dataset ! i) \<noteq> 1))"
  by (simp add: FamilySize_add IsAlone_add sint_add3)

theorem FamilySize_IsAlone_witness:
  "(0::nat) < length [braund]
   \<and> FamilySize (map (add_IsAlone \<circ> add_FamilySize) [braund] ! 0) = 2
   \<and> sint (SibSp ([braund] ! 0)) + sint (Parch ([braund] ! 0)) + 1 \<in> {- (2 ^ 63) ..< 2 ^ 63}
   \<and> sint (FamilySize (map (add_IsAlone \<circ> add_FamilySize) [braund] ! 0)) = 2
   \<and> IsAlone (map (add_IsAlone \<circ> add_FamilySize) [braund] ! 0) = 0
   \<and> FamilySize (map (add_IsAlone \<circ> add_FamilySize) [braund\<lparr>SibSp := 0\<rparr>] ! 0) = 1
   \<and> IsAlone (map (add_IsAlone \<circ> add_FamilySize) [braund\<lparr>SibSp := 0\<rparr>] ! 0) = 1"
  using FamilySize_IsAlone [of "[braund]"] FamilySize_IsAlone [of "[braund\<lparr>SibSp := 0\<rparr>]"]
  by (simp add: braund_def)

lemma clean2_FarePerPerson:
  "clean2 r = Inr r' \<Longrightarrow>
     FarePerPerson r' = float_div (Fare r) (FarePerPerson_divisor (FamilySize r))"
  by (auto simp: clean2_def split: sum.splits)

text \<open>
  C10, as the claim states it, fails: the counts are read from the file as \<open>int64\<close> and
  no cell checks their sign. A row with sibling/spouse count -2 and parent/child count 0
  gets family size -1 and divisor 0, and its per-person fare is an infinity.
\<close>

theorem FarePerPerson_divisor_counterexample:
  "sint (FamilySize (add_FamilySize (braund\<lparr>SibSp := - 2\<rparr>))) = - 1
   \<and> FarePerPerson_divisor (FamilySize (add_FamilySize (braund\<lparr>SibSp := - 2\<rparr>))) = 0
   \<and> float_div (Fare (add_FamilySize (braund\<lparr>SibSp := - 2\<rparr>)))
        (FarePerPerson_divisor (FamilySize (add_FamilySize (braund\<lparr>SibSp := - 2\<rparr>))))
       = PosInf"
  by (simp add: FamilySize_add braund_def FarePerPerson_divisor_def float_div_def
      add_FamilySize_def passenger.defs passenger_fs.defs)

text \<open>
  C10, amended. The per-person fare of the second feature selection is the fare divided
  by family size plus 1. For every row whose sibling/spouse and parent/child counts are
  not negative and whose sum with 2 fits \<open>int64\<close>, the family size is at least 1 and
  the divisor at least 2, so the division is not by zero and the quotient of a present
  fare is a number.
\<close>

theorem FarePerPerson_divisor_ge_2:
  assumes "0 \<le> sint (SibSp r)" "0 \<le> sint (Parch r)"
    and "sint (SibSp r) + sint (Parch r) + 2 < 2 ^ 63"
  shows "1 \<le> sint (FamilySize (add_FamilySize r))
   \<and> 2 \<le> sint (FarePerPerson_divisor (FamilySize (add_FamilySize r)))
   \<and> FarePerPerson_divisor (FamilySize (add_FamilySize r)) \<noteq> 0
   \<and> float_div (Some f) (FarePerPerson_divisor (FamilySize (add_FamilySize r)))
       = Num (f / real_of_int (sint (SibSp r) + sint (Parch r) + 2))
   \<and> (\<forall>e c. clean2 e = Inr c \<longrightarrow>
         FarePerPerson c = float_div (Fare e) (FarePerPerson_divisor (FamilySize e)))"
proof -
  have fs: "sint (SibSp r + Parch r + 1) = sint (SibSp r) + sint (Parch r) + 1"
    using assms by (intro sint_add3) simp_all
  have d: "sint (SibSp r + Parch r + 1 + 1) = sint (SibSp r) + sint (Parch r) + 2"
    using assms fs by (subst sint_add1) simp_all
  have nz: "SibSp r + Parch r + 1 + 1 \<noteq> 0"
  proof
    assume "SibSp r + Parch r + 1 + 1 = 0"
    then have "sint (SibSp r + Parch r + 1 + 1) = 0" by simp
    with d assms show False by simp
  qed
  show ?thesis
    using assms fs d nz
    by (simp add: FamilySize_add FarePerPerson_divisor_def float_div_def clean2_FarePerPerson)
qed

theorem FarePerPerson_divisor_ge_2_witness:
  "0 \<le> sint (SibSp braund) \<and> 0 \<le> sint (Parch braund)
   \<and> sint (SibSp braund) + sint (Parch braund) + 2 < 2 ^ 63
   \<and> sint (FamilySize (add_FamilySize braund)) = 2
   \<and> sint (FarePerPerson_divisor (FamilySize (add_FamilySize braund))) = 3
   \<and> float_div (Some 7.25) (FarePerPerson_divisor (FamilySize (add_FamilySize braund)))
       = Num (7.25 / 3)
   \<and> clean2 braund_eda = Inr braund_clean2
   \<and> FarePerPerson braund_clean2
       = float_div (Fare braund_eda) (FarePerPerson_divisor (FamilySize braund_eda))"
proof -
  have h: "0 \<le> sint (SibSp braund)" "0 \<le> sint (Parch braund)"
    "sint (SibSp braund) + sint (Parch braund) + 2 < 2 ^ 63"
    by (simp_all add: braund_def)
  have v: "sint (FamilySize (add_FamilySize braund)) = 2"
    "sint (FarePerPerson_divisor (FamilySize (add_FamilySize braund))) = 3"
    by (simp_all add: FamilySize_add FarePerPerson_divisor_def braund_def)
  have s: "sint (SibSp braund) + sint (Parch braund) + 2 = 3"
    by (simp add: braund_def)
  have c: "clean2 braund_eda = Inr braund_clean2"
    by (simp add: clean2_def braund_eda_def braund_clean2_def Mapping_Sex_def
        Mapping_Embarked_def Mapping_titles_def Mapping_Age_bucket astype_int_def fillna_def
        map_dict_def sex_mapping_def embarked_mapping_def title_mapping_def
        float_div_def FarePerPerson_divisor_def)
  note t = FarePerPerson_divisor_ge_2 [OF h, of "7.25"]
  from t have "float_div (Some 7.25) (FarePerPerson_divisor (FamilySize (add_FamilySize braund)))
       = Num (7.25 / real_of_int (sint (SibSp braund) + sint (Parch braund) + 2))"
    by blast
  then have q: "float_div (Some 7.25) (FarePerPerson_divisor (FamilySize (add_FamilySize braund)))
       = Num (7.25 / 3)"
    by (simp only: s) simp
  from t c have p: "FarePerPerson braund_clean2
       = float_div (Fare braund_eda) (FarePerPerson_divisor (FamilySize braund_eda))"
    by blast
  from h v q c p show ?thesis by blast
qed

section \<open>Properties of the imputation of the age\<close>


lemma trunc_gt: "x - 1 < real_of_int (trunc x)"
  unfolding trunc_def by (simp; linarith)












section \<open>Rows and missing values through the notebook\<close>






























subsection \<open>C9: rows and missing values\<close>

subsection \<open>The notebook on the example frames\<close>












section \<open>Properties of the Otto labels\<close>

declare digits_of.simps [simp del]
declare gsub_delete.simps [simp del]

lemma is_digit_char_of: "(d::nat) < 10 \<Longrightarrow> is_digit (char_of (48 + d))"
  by (simp add: is_digit_def)

lemma digits_of_digits: "list_all is_digit (digits_of n)"
proof (induction n rule: digits_of.induct)
  case (1 n)
  show ?case
  proof (cases "n < 10")
    case True
    then show ?thesis by (subst digits_of.simps) (simp add: is_digit_char_of)
  next
    case False
    then show ?thesis using 1
      by (subst digits_of.simps) (simp add: is_digit_char_of)
  qed
qed

lemma digits_of_nonempty: "digits_of n \<noteq> []"
  by (subst digits_of.simps) simp

lemma decimal_snoc: "decimal (ds @ [c]) = 10 * decimal ds + (of_char c - 48)"
  by (simp add: decimal_def)

lemma decimal_digits_of: "decimal (digits_of n) = n"
proof (induction n rule: digits_of.induct)
  case (1 n)
  show ?case
  proof (cases "n < 10")
    case True
    then show ?thesis by (subst digits_of.simps) (simp add: decimal_def)
  next
    case False
    then show ?thesis using 1
      by (subst digits_of.simps) (simp add: decimal_snoc)
  qed
qed

lemma gsub_delete_absent:
  "pat \<noteq> [] \<Longrightarrow> hd pat \<notin> set s \<Longrightarrow> gsub_delete pat s = s"
proof (induction s)
  case Nil
  then show ?case by (subst gsub_delete.simps) simp
next
  case (Cons c cs)
  from Cons.prems have "take (length pat) (c # cs) \<noteq> pat"
    by (cases pat) auto
  with Cons show ?case by (subst gsub_delete.simps) simp
qed

lemma gsub_delete_prefix:
  "pat \<noteq> [] \<Longrightarrow> gsub_delete pat (pat @ s) = gsub_delete pat s"
  by (subst gsub_delete.simps) simp

lemma digit_not_space: "is_digit c \<Longrightarrow> \<not> is_space c"
  by (auto simp: is_digit_def is_space_def)

lemma strip_blank_digits:
  assumes "ds \<noteq> []" "list_all is_digit ds"
  shows "strip_blank ds = ds"
proof -
  from assms have h: "\<not> is_space (hd ds)" and l: "\<not> is_space (last ds)"
    by (auto simp: list_all_iff digit_not_space)
  from assms(1) h have a: "dropWhile is_space ds = ds"
    by (cases ds) simp_all
  from assms(1) l have b: "dropWhile is_space (rev ds) = rev ds"
    by (cases "rev ds") (simp_all add: last_rev [symmetric] del: last_rev)
  show ?thesis by (simp add: strip_blank_def a b)
qed

lemma read_sign_digits:
  assumes "ds \<noteq> []" "list_all is_digit ds"
  shows "read_sign ds = (1, ds)"
proof -
  from assms obtain c cs where ds: "ds = c # cs" "is_digit c"
    by (cases ds) auto
  then have "c \<noteq> CHR ''-''" "c \<noteq> CHR ''+''"
    by (auto simp: is_digit_def)
  with ds show ?thesis by (simp add: read_sign_def)
qed

lemma as_integer_digits:
  assumes "ds \<noteq> []" "list_all is_digit ds"
  shows "as_integer other ds = (if decimal ds < 2 ^ 31 then Some (int (decimal ds)) else None)"
proof -
  have "int (decimal ds) \<ge> 2 ^ 31 \<longleftrightarrow> \<not> decimal ds < 2 ^ 31"
    by (simp add: not_less)
  moreover have "\<not> int (decimal ds) \<le> - (2 ^ 31)"
  proof -
    have "(0::int) \<le> int (decimal ds)" by simp
    moreover have "- (2 ^ 31) < (0::int)" by simp
    ultimately show ?thesis by linarith
  qed
  ultimately show ?thesis
    using assms by (simp add: as_integer_def strip_blank_digits read_sign_digits)
qed

lemma digit_not_C: "is_digit c \<Longrightarrow> c \<noteq> CHR ''C''"
  by (auto simp: is_digit_def)

lemma digits_ascii: "list_all is_digit ds \<Longrightarrow> ascii ds"
  by (auto simp: ascii_def is_digit_def list_all_iff)

lemma Class_digits_ascii: "list_all is_digit ds \<Longrightarrow> ascii (''Class_'' @ ds)"
  using digits_ascii [of ds] by (simp add: ascii_def)

lemma classToIntegers_digits:
  assumes "ds \<noteq> []" "list_all is_digit ds" "\<forall>s. ascii s \<longrightarrow> valid s"
  shows "classToIntegers valid other (Some (''Class_'' @ ds))
           = Inr (if decimal ds < 2 ^ 31 then Some (int (decimal ds) - 1) else None)"
    and "classToIntegers valid other (Some ds)
           = Inr (if decimal ds < 2 ^ 31 then Some (int (decimal ds) - 1) else None)"
proof -
  have "hd ''Class_'' \<notin> set ds"
    using assms(2) by (auto simp: list_all_iff dest: digit_not_C)
  then have g: "gsub_delete ''Class_'' ds = ds"
    by (intro gsub_delete_absent) simp_all
  have g2: "gsub_delete ''Class_'' (''Class_'' @ ds) = ds"
    using gsub_delete_prefix [of "''Class_''" ds] g by simp
  have v: "valid ds" "valid (''Class_'' @ ds)"
    using assms(2,3) digits_ascii Class_digits_ascii by blast+
  have a: "as_integer other ds = (if decimal ds < 2 ^ 31 then Some (int (decimal ds)) else None)"
    by (rule as_integer_digits [OF assms(1,2)])
  show "classToIntegers valid other (Some (''Class_'' @ ds))
           = Inr (if decimal ds < 2 ^ 31 then Some (int (decimal ds) - 1) else None)"
    using v(2) by (simp add: classToIntegers_def gsub_def g2 a del: append.simps)
  show "classToIntegers valid other (Some ds)
           = Inr (if decimal ds < 2 ^ 31 then Some (int (decimal ds) - 1) else None)"
    using v(1) by (simp add: classToIntegers_def gsub_def g a)
qed

lemma digits_examples:
  "digits_of 5 = ''5''" "digits_of 9 = ''9''" "digits_of 4294967296 = ''4294967296''"
  by (simp_all add: digits_of.simps char_of_def bit_0 bit_Suc)

text \<open>
  C1, as the claim states it, fails in both halves. The string "5" is not of the form
  "Class_<int>", yet no error is raised and it is converted to the label 4. The string
  "Class_4294967296" is of that form and is not mapped to 4294967295 but to the missing
  value.
\<close>

theorem classToIntegers_counterexample:
  "\<not> class_format ''5''
   \<and> classToIntegers single_byte_locale (\<lambda>s. None) (Some ''5'') = Inr (Some 4)
   \<and> class_format ''Class_4294967296''
   \<and> classToIntegers single_byte_locale (\<lambda>s. None) (Some ''Class_4294967296'') = Inr None"
proof -
  have v: "\<forall>s. ascii s \<longrightarrow> single_byte_locale s"
    by (simp add: single_byte_locale_def)
  have d: "digits_of 4294967296 \<noteq> []" "list_all is_digit (digits_of 4294967296)"
    "decimal (digits_of 4294967296) = 4294967296"
    by (rule digits_of_nonempty digits_of_digits decimal_digits_of)+
  have a: "\<not> class_format ''5''" by (simp add: class_format_def)
  have b: "classToIntegers single_byte_locale (\<lambda>s. None) (Some ''5'') = Inr (Some 4)"
    using classToIntegers_digits(2) [of "''5''" single_byte_locale] v
    by (simp add: is_digit_def decimal_def)
  have "''Class_4294967296'' = ''Class_'' @ ''4294967296''" by simp
  then have c: "class_format ''Class_4294967296''"
    unfolding class_format_def using d(1,2) unfolding digits_examples by blast
  have e: "classToIntegers single_byte_locale (\<lambda>s. None) (Some ''Class_4294967296'') = Inr None"
    using classToIntegers_digits(1) [OF d(1,2) v, of "\<lambda>s. None"] d(3)
    by (simp add: digits_examples)
  from a b c e show ?thesis by blast
qed

text \<open>
  C1, amended. In a session whose locale accepts the strings of ASCII characters (every
  locale does), the label of "Class_<n>", with n written in decimal digits, is n - 1 when
  n is below 2^31 ("Class_1" gives 0 and "Class_9" gives 8), and the missing value NA
  when n is 2^31 or more. A string that is not of this form is not always refused: the
  prefix is deleted wherever it stands, so the bare digits "<n>" give n - 1 as well.
\<close>

theorem classToIntegers_labels:
  assumes "\<forall>s. ascii s \<longrightarrow> valid s"
  shows "classToIntegers valid other (Some ''Class_1'') = Inr (Some 0)
   \<and> classToIntegers valid other (Some ''Class_9'') = Inr (Some 8)
   \<and> (n < 2 ^ 31 \<longrightarrow>
        classToIntegers valid other (Some (''Class_'' @ digits_of n)) = Inr (Some (int n - 1))
        \<and> classToIntegers valid other (Some (digits_of n)) = Inr (Some (int n - 1)))
   \<and> (\<not> n < 2 ^ 31 \<longrightarrow>
        classToIntegers valid other (Some (''Class_'' @ digits_of n)) = Inr None)"
proof -
  have a: "classToIntegers valid other (Some ''Class_1'') = Inr (Some 0)"
    using classToIntegers_digits(1) [of "''1''" valid other] assms
    by (simp add: is_digit_def decimal_def)
  have b: "classToIntegers valid other (Some ''Class_9'') = Inr (Some 8)"
    using classToIntegers_digits(1) [of "''9''" valid other] assms
    by (simp add: is_digit_def decimal_def)
  note d = classToIntegers_digits [where ds = "digits_of n" and valid = valid
      and other = other, OF digits_of_nonempty digits_of_digits assms]
  show ?thesis
    using a b d by (simp add: decimal_digits_of)
qed

theorem classToIntegers_labels_witness:
  "(9::nat) < 2 ^ 31 \<and> digits_of 9 = ''9''
   \<and> classToIntegers single_byte_locale (\<lambda>s. None) (Some (''Class_'' @ digits_of 9))
       = Inr (Some 8)
   \<and> classToIntegers single_byte_locale (\<lambda>s. None) (Some (digits_of 9)) = Inr (Some 8)
   \<and> \<not> (4294967296::nat) < 2 ^ 31 \<and> digits_of 4294967296 = ''4294967296''
   \<and> classToIntegers single_byte_locale (\<lambda>s. None) (Some (''Class_'' @ digits_of 4294967296))
       = Inr None"
proof -
  have v: "\<forall>s. ascii s \<longrightarrow> single_byte_locale s"
    by (simp add: single_byte_locale_def)
  from classToIntegers_labels [OF v, of "\<lambda>s. None" 9]
    classToIntegers_labels [OF v, of "\<lambda>s. None" 4294967296] digits_examples(2,3)
  show ?thesis by simp
qed

end
